theory Spec2Isabelle
  imports Main "HOL-Library.AList" "HOL-Library.Sublist"
begin

section \<open>The realtime gateway of the task-management backend\<close>

text \<open>
  This theory embeds \<^verbatim>\<open>src/common/services/socket.service.ts\<close> (class
  \<^verbatim>\<open>SocketService\<close>) and the \<^verbatim>\<open>findById\<close> method of
  \<^verbatim>\<open>src/users/users.service.ts\<close>.

  Socket objects are mutable and shared by reference (the registry stores the very object
  the handler received), so they live in an explicit store addressed by a connection
  handle. What socket.io does behind \<^verbatim>\<open>emit\<close>, \<^verbatim>\<open>broadcast\<close>, \<^verbatim>\<open>to\<close>,
  \<^verbatim>\<open>join\<close>, \<^verbatim>\<open>leave\<close> and \<^verbatim>\<open>disconnect\<close> is library code; it is
  modelled for one server process at the level of its API: a frame log records, per
  connection, every event handed to that connection.  Each handler runs as one step;
  interleavings at its \<^verbatim>\<open>await\<close> points are not modelled.
\<close>

subsection \<open>Data\<close>

type_synonym conn_id = nat
type_synonym date = nat

text \<open>A handshake field as \<^verbatim>\<open>typeof x === 'string'\<close> sees it.\<close>

datatype jsfield = Undefined | NotAString | Str string

text \<open>Wire payloads. The DTOs of the business services pass through unchanged.\<close>

datatype json = JStr string | JBool bool | JDate date | JObj "(string \<times> json) list"

type_synonym TaskDto = json
type_synonym ProjectDto = json
type_synonym CommentDto = json
type_synonym NotificationDto = json
type_synonym UserPresenceDto = json

datatype exn =
    JsonWebTokenError string
  | NotFoundException string
  | TypeError string
  | Error string

fun message :: "exn \<Rightarrow> string" where
  "message (JsonWebTokenError m) = m"
| "message (NotFoundException m) = m"
| "message (TypeError m) = m"
| "message (Error m) = m"

text \<open>\<^verbatim>\<open>AuthenticatedSocket.user\<close>.\<close>

record principal =
  p_id :: string
  p_email :: string
  p_isAdmin :: bool

text \<open>The fields of a \<^verbatim>\<open>UserDocument\<close> that the gateway reads; \<open>u_id\<close> is
  \<^verbatim>\<open>_id.toString()\<close>.\<close>

record UserDocument =
  u_id :: string
  email :: string
  isActive :: bool
  isConfirmed :: bool
  isAdmin :: bool

record JwtPayload =
  jwt_email :: string
  sub :: string

text \<open>A socket.io \<^verbatim>\<open>Socket\<close>: the handshake it was opened with, the ad-hoc
  \<^verbatim>\<open>user\<close> property, and the rooms it is in.\<close>

record socket =
  auth_token :: jsfield
  authorization :: jsfield
  user :: "principal option"
  rooms :: "string list"

datatype level = LOG | WARN | ERROR

text \<open>
  An ioredis client as the gateway sees it: the options it was built with and the
  listeners registered on it, in order. A listener is kept as the console line it prints
  for the event's argument.
\<close>

record RedisOptions =
  host :: string
  port :: nat
  password :: "string option"

record Redis =
  options :: RedisOptions
  listeners :: "(string \<times> (string \<Rightarrow> string)) list"

text \<open>
  The gateway with the part of the socket.io server it acts on:
  \<open>heap\<close> holds the Socket objects, \<open>nsp_sockets\<close> lists the handles of the sockets
  currently connected to the server, \<open>connectedUsers\<close> is the private
  \<^verbatim>\<open>Map<string, AuthenticatedSocket>\<close> in insertion order, \<open>frames\<close> the events handed
  to connections so far, \<open>logs\<close> the logger's output and \<open>adapter\<close> the pair of
  clients given to \<^verbatim>\<open>server.adapter\<close>.
\<close>

record service =
  heap :: "conn_id \<Rightarrow> socket"
  nsp_sockets :: "conn_id list"
  connectedUsers :: "(string \<times> conn_id) list"
  frames :: "(conn_id \<times> string \<times> json) list"
  logs :: "(level \<times> string) list"
  adapter :: "(Redis \<times> Redis) option"

text \<open>
  The collaborators a handler calls: \<^verbatim>\<open>jwtService.verify\<close>,
  \<^verbatim>\<open>usersService.findById\<close> as the handler uses it (a rejection, \<^verbatim>\<open>null\<close> or a
  document), \<^verbatim>\<open>usersService.updateLastSeen\<close>, and \<open>now k\<close>, the value of the
  \<open>k\<close>-th \<^verbatim>\<open>new Date()\<close> the handler evaluates.
\<close>

record env =
  verify :: "string \<Rightarrow> exn + JwtPayload"
  findById :: "string \<Rightarrow> exn + UserDocument option"
  updateLastSeen :: "string \<Rightarrow> date \<Rightarrow> exn + unit"
  now :: "nat \<Rightarrow> date"

subsection \<open>The User Directory's lookup\<close>

text \<open>\<^verbatim>\<open>UsersService.findById\<close>: a missing document is raised as
  \<^verbatim>\<open>NotFoundException\<close>, never returned as \<^verbatim>\<open>null\<close>.\<close>

definition UsersService_findById ::
  "(string \<Rightarrow> exn + UserDocument option) \<Rightarrow> string \<Rightarrow> exn + UserDocument option" where
  "UsersService_findById userModel_findById ident =
     (case userModel_findById ident of
        Inl e \<Rightarrow> Inl e
      | Inr None \<Rightarrow> Inl (NotFoundException ''User not found'')
      | Inr (Some u) \<Rightarrow> Inr (Some u))"

subsection \<open>socket.io operations\<close>

definition logger :: "level \<Rightarrow> string \<Rightarrow> service \<Rightarrow> service" where
  "logger l m st = st\<lparr>logs := logs st @ [(l, m)]\<rparr>"

text \<open>\<^verbatim>\<open>client.emit(ev, payload)\<close>.\<close>

definition socket_emit :: "service \<Rightarrow> conn_id \<Rightarrow> string \<Rightarrow> json \<Rightarrow> service" where
  "socket_emit st client ev payload = st\<lparr>frames := frames st @ [(client, ev, payload)]\<rparr>"

text \<open>\<^verbatim>\<open>client.broadcast.emit(ev, payload)\<close>: every connected socket but the sender.\<close>

definition broadcast_emit :: "service \<Rightarrow> conn_id \<Rightarrow> string \<Rightarrow> json \<Rightarrow> service" where
  "broadcast_emit st client ev payload =
     st\<lparr>frames := frames st @ map (\<lambda>c. (c, ev, payload)) (filter (\<lambda>c. c \<noteq> client) (nsp_sockets st))\<rparr>"

text \<open>\<^verbatim>\<open>server.to(room).emit(ev, payload)\<close>: every connected socket in the room.\<close>

definition server_to_emit :: "service \<Rightarrow> string \<Rightarrow> string \<Rightarrow> json \<Rightarrow> service" where
  "server_to_emit st room ev payload =
     st\<lparr>frames := frames st @
        map (\<lambda>c. (c, ev, payload)) (filter (\<lambda>c. room \<in> set (rooms (heap st c))) (nsp_sockets st))\<rparr>"

text \<open>\<^verbatim>\<open>server.emit(ev, payload)\<close>: every connected socket.\<close>

definition server_emit :: "service \<Rightarrow> string \<Rightarrow> json \<Rightarrow> service" where
  "server_emit st ev payload =
     st\<lparr>frames := frames st @ map (\<lambda>c. (c, ev, payload)) (nsp_sockets st)\<rparr>"

definition socket_join :: "service \<Rightarrow> conn_id \<Rightarrow> string \<Rightarrow> service" where
  "socket_join st client room =
     st\<lparr>heap := (heap st)(client := (heap st client)\<lparr>rooms := List.insert room (rooms (heap st client))\<rparr>)\<rparr>"

definition socket_leave :: "service \<Rightarrow> conn_id \<Rightarrow> string \<Rightarrow> service" where
  "socket_leave st client room =
     st\<lparr>heap := (heap st)(client := (heap st client)\<lparr>rooms := removeAll room (rooms (heap st client))\<rparr>)\<rparr>"

text \<open>\<^verbatim>\<open>client.disconnect()\<close>: the socket leaves the server and all its rooms.\<close>

definition disconnect :: "service \<Rightarrow> conn_id \<Rightarrow> service" where
  "disconnect st client =
     st\<lparr>heap := (heap st)(client := (heap st client)\<lparr>rooms := []\<rparr>),
        nsp_sockets := removeAll client (nsp_sockets st)\<rparr>"

definition is_connected :: "service \<Rightarrow> conn_id \<Rightarrow> bool" where
  "is_connected st c = (c \<in> set (nsp_sockets st))"

subsection \<open>Token extraction\<close>

text \<open>\<^verbatim>\<open>s.replace(pat, rep)\<close> with a string pattern: the first occurrence only.\<close>

fun replace_first :: "string \<Rightarrow> string \<Rightarrow> string \<Rightarrow> string" where
  "replace_first pat rep [] = (if pat = [] then rep else [])"
| "replace_first pat rep (c # cs) =
     (if prefix pat (c # cs) then rep @ drop (length pat) (c # cs)
      else c # replace_first pat rep cs)"

definition authToken :: "socket \<Rightarrow> string option" where
  "authToken s = (case auth_token s of Str t \<Rightarrow> Some t | _ \<Rightarrow> None)"

definition headerToken :: "socket \<Rightarrow> string option" where
  "headerToken s =
     (case authorization s of Str a \<Rightarrow> Some (replace_first ''Bearer '' '''' a) | _ \<Rightarrow> None)"

text \<open>\<^verbatim>\<open>a || b\<close> on \<^verbatim>\<open>string | undefined\<close>: the empty string is falsy.\<close>

definition js_or :: "string option \<Rightarrow> string option \<Rightarrow> string option" where
  "js_or a b = (case a of Some t \<Rightarrow> (if t \<noteq> [] then Some t else b) | None \<Rightarrow> b)"

definition token_of :: "socket \<Rightarrow> string option" where
  "token_of s = js_or (authToken s) (headerToken s)"

subsection \<open>Connection lifecycle\<close>

text \<open>The return paths of \<^verbatim>\<open>handleConnection\<close>; its promise resolves on each.\<close>

datatype conn_result =
    NoToken
  | InvalidToken
  | UserNotFound
  | InactiveUser
  | UnconfirmedUser
  | UnexpectedError exn
  | Connected

definition set_user :: "service \<Rightarrow> conn_id \<Rightarrow> principal \<Rightarrow> service" where
  "set_user st client p = st\<lparr>heap := (heap st)(client := (heap st client)\<lparr>user := Some p\<rparr>)\<rparr>"

definition userPresence :: "UserDocument \<Rightarrow> date \<Rightarrow> UserPresenceDto" where
  "userPresence u d =
     JObj [(''userId'', JStr (u_id u)), (''email'', JStr (email u)),
           (''isOnline'', JBool True), (''lastSeen'', JDate d)]"

definition unexpected :: "service \<Rightarrow> conn_id \<Rightarrow> exn \<Rightarrow> conn_result \<times> service" where
  "unexpected st client error =
     (UnexpectedError error,
      disconnect (logger ERROR (''[SocketService] Unexpected connection error: '' @ message error) st)
        client)"

definition register :: "env \<Rightarrow> service \<Rightarrow> conn_id \<Rightarrow> UserDocument \<Rightarrow> conn_result \<times> service" where
  "register e st client u =
     (let st1 = set_user st client \<lparr>p_id = u_id u, p_email = email u, p_isAdmin = isAdmin u\<rparr>;
          st2 = st1\<lparr>connectedUsers := AList.update (u_id u) client (connectedUsers st1)\<rparr>
      in case updateLastSeen e (u_id u) (now e 0) of
           Inl error \<Rightarrow> unexpected st2 client error
         | Inr _ \<Rightarrow>
             (Connected,
              logger LOG (''User '' @ email u @ '' connected'')
                (broadcast_emit st2 client ''user.online'' (userPresence u (now e 1)))))"

definition handleConnection :: "env \<Rightarrow> service \<Rightarrow> conn_id \<Rightarrow> conn_result \<times> service" where
  "handleConnection e st client =
     (case token_of (heap st client) of
        None \<Rightarrow>
          (NoToken, disconnect (logger WARN ''Connection rejected: No token provided'' st) client)
      | Some token \<Rightarrow>
          if token = [] then
            (NoToken, disconnect (logger WARN ''Connection rejected: No token provided'' st) client)
          else
            (case verify e token of
               Inl _ \<Rightarrow> (InvalidToken, disconnect st client)
             | Inr payload \<Rightarrow>
                 (case findById e (sub payload) of
                    Inl error \<Rightarrow> unexpected st client error
                  | Inr None \<Rightarrow>
                      (UserNotFound,
                       disconnect
                         (logger WARN
                            (''Connection rejected: User not found ('' @ sub payload @ '')'') st)
                         client)
                  | Inr (Some u) \<Rightarrow>
                      if \<not> isActive u then
                        (InactiveUser,
                         disconnect
                           (logger WARN
                              (''Connection rejected: Inactive user ('' @ email u @ '')'') st)
                           client)
                      else if \<not> isConfirmed u then
                        (UnconfirmedUser,
                         disconnect
                           (logger WARN
                              (''Connection rejected: Unconfirmed user ('' @ email u @ '')'') st)
                           client)
                      else register e st client u)))"

text \<open>\<^verbatim>\<open>handleDisconnect\<close>: its promise rejects when \<^verbatim>\<open>updateLastSeen\<close> does.\<close>

definition handleDisconnect :: "env \<Rightarrow> service \<Rightarrow> conn_id \<Rightarrow> (exn + unit) \<times> service" where
  "handleDisconnect e st client =
     (case user (heap st client) of
        None \<Rightarrow> (Inr (), st)
      | Some p \<Rightarrow>
          (let userId = p_id p;
               st1 = st\<lparr>connectedUsers := AList.delete userId (connectedUsers st)\<rparr>
           in case updateLastSeen e userId (now e 0) of
                Inl error \<Rightarrow> (Inl error, st1)
              | Inr _ \<Rightarrow>
                  (Inr (),
                   logger LOG (''User '' @ p_email p @ '' disconnected'')
                     (broadcast_emit st1 client ''user.offline'' (JStr userId)))))"

subsection \<open>Presence reads\<close>

text \<open>The three readers are methods of the service; each returns its value together with
  the service as it leaves it.\<close>

definition isUserOnline :: "service \<Rightarrow> string \<Rightarrow> bool \<times> service" where
  "isUserOnline st userId = (map_of (connectedUsers st) userId \<noteq> None, st)"

definition getConnectedUsers :: "service \<Rightarrow> string list \<times> service" where
  "getConnectedUsers st = (map fst (connectedUsers st), st)"

definition getConnectedUserCount :: "service \<Rightarrow> nat \<times> service" where
  "getConnectedUserCount st = (length (connectedUsers st), st)"

subsection \<open>Room handlers\<close>

text \<open>
  The four message handlers join or leave first and read \<^verbatim>\<open>client.user.email\<close> for
  the log line afterwards; on a socket without \<^verbatim>\<open>user\<close> that read raises a
  \<^verbatim>\<open>TypeError\<close>.
\<close>

definition no_user :: exn where
  "no_user = TypeError ''Cannot read properties of undefined (reading email)''"

definition handleJoinProject :: "service \<Rightarrow> conn_id \<Rightarrow> string \<Rightarrow> (exn + unit) \<times> service" where
  "handleJoinProject st client projectId =
     (let st1 = socket_join st client (''project:'' @ projectId)
      in case user (heap st1 client) of
           None \<Rightarrow> (Inl no_user, st1)
         | Some p \<Rightarrow>
             (Inr (), logger LOG (''User '' @ p_email p @ '' joined project '' @ projectId) st1))"

definition handleLeaveProject :: "service \<Rightarrow> conn_id \<Rightarrow> string \<Rightarrow> (exn + unit) \<times> service" where
  "handleLeaveProject st client projectId =
     (let st1 = socket_leave st client (''project:'' @ projectId)
      in case user (heap st1 client) of
           None \<Rightarrow> (Inl no_user, st1)
         | Some p \<Rightarrow>
             (Inr (), logger LOG (''User '' @ p_email p @ '' left project '' @ projectId) st1))"

definition handleJoinTask :: "service \<Rightarrow> conn_id \<Rightarrow> string \<Rightarrow> (exn + unit) \<times> service" where
  "handleJoinTask st client taskId =
     (let st1 = socket_join st client (''task:'' @ taskId)
      in case user (heap st1 client) of
           None \<Rightarrow> (Inl no_user, st1)
         | Some p \<Rightarrow>
             (Inr (), logger LOG (''User '' @ p_email p @ '' joined task '' @ taskId) st1))"

definition handleLeaveTask :: "service \<Rightarrow> conn_id \<Rightarrow> string \<Rightarrow> (exn + unit) \<times> service" where
  "handleLeaveTask st client taskId =
     (let st1 = socket_leave st client (''task:'' @ taskId)
      in case user (heap st1 client) of
           None \<Rightarrow> (Inl no_user, st1)
         | Some p \<Rightarrow>
             (Inr (), logger LOG (''User '' @ p_email p @ '' left task '' @ taskId) st1))"

subsection \<open>Emission to one user\<close>

definition emitTaskCreated :: "service \<Rightarrow> string \<Rightarrow> TaskDto \<Rightarrow> service" where
  "emitTaskCreated st userId task =
     (case map_of (connectedUsers st) userId of
        None \<Rightarrow> st
      | Some client \<Rightarrow> socket_emit st client ''task.created'' task)"

definition emitTaskUpdated :: "service \<Rightarrow> string \<Rightarrow> TaskDto \<Rightarrow> service" where
  "emitTaskUpdated st userId task =
     (case map_of (connectedUsers st) userId of
        None \<Rightarrow> st
      | Some client \<Rightarrow> socket_emit st client ''task.updated'' task)"

definition emitTaskDeleted :: "service \<Rightarrow> string \<Rightarrow> string \<Rightarrow> service" where
  "emitTaskDeleted st userId taskId =
     (case map_of (connectedUsers st) userId of
        None \<Rightarrow> st
      | Some client \<Rightarrow> socket_emit st client ''task.deleted'' (JStr taskId))"

definition emitProjectUpdated :: "service \<Rightarrow> string \<Rightarrow> ProjectDto \<Rightarrow> service" where
  "emitProjectUpdated st userId project =
     (case map_of (connectedUsers st) userId of
        None \<Rightarrow> st
      | Some client \<Rightarrow> socket_emit st client ''project.updated'' project)"

definition emitCommentCreated :: "service \<Rightarrow> string \<Rightarrow> CommentDto \<Rightarrow> service" where
  "emitCommentCreated st userId comment =
     (case map_of (connectedUsers st) userId of
        None \<Rightarrow> st
      | Some client \<Rightarrow> socket_emit st client ''comment.created'' comment)"

definition emitUserOnline :: "service \<Rightarrow> string \<Rightarrow> UserPresenceDto \<Rightarrow> service" where
  "emitUserOnline st userId presence =
     (case map_of (connectedUsers st) userId of
        None \<Rightarrow> st
      | Some client \<Rightarrow> socket_emit st client ''user.online'' presence)"

definition emitNotification :: "service \<Rightarrow> string \<Rightarrow> NotificationDto \<Rightarrow> service" where
  "emitNotification st userId notification =
     (case map_of (connectedUsers st) userId of
        None \<Rightarrow> st
      | Some client \<Rightarrow> socket_emit st client ''notification'' notification)"

subsection \<open>Emission to a room and to everyone\<close>

definition emitTaskCreatedToProject :: "service \<Rightarrow> string \<Rightarrow> TaskDto \<Rightarrow> service" where
  "emitTaskCreatedToProject st projectId task =
     server_to_emit st (''project:'' @ projectId) ''task.created'' task"







definition emitTaskUpdatedToTask :: "service \<Rightarrow> string \<Rightarrow> TaskDto \<Rightarrow> service" where
  "emitTaskUpdatedToTask st taskId task =
     server_to_emit st (''task:'' @ taskId) ''task.updated'' task"

definition emitCommentCreatedToTask :: "service \<Rightarrow> string \<Rightarrow> CommentDto \<Rightarrow> service" where
  "emitCommentCreatedToTask st taskId comment =
     server_to_emit st (''task:'' @ taskId) ''comment.created'' comment"

definition broadcastUserOnline :: "service \<Rightarrow> UserPresenceDto \<Rightarrow> service" where
  "broadcastUserOnline st presence = server_emit st ''user.online'' presence"

definition broadcastUserOffline :: "service \<Rightarrow> string \<Rightarrow> service" where
  "broadcastUserOffline st userId = server_emit st ''user.offline'' (JStr userId)"

text \<open>The frames a step added, and who received them.\<close>

definition new_frames :: "service \<Rightarrow> service \<Rightarrow> (conn_id \<times> string \<times> json) list" where
  "new_frames st st' = drop (length (frames st)) (frames st')"

definition receivers :: "service \<Rightarrow> service \<Rightarrow> conn_id set" where
  "receivers st st' = fst ` set (new_frames st st')"

subsection \<open>Gateway initialisation\<close>

text \<open>\<^verbatim>\<open>redis.duplicate()\<close>: a new client with the same options and no listeners.\<close>

definition duplicate :: "Redis \<Rightarrow> Redis" where
  "duplicate r = \<lparr>options = options r, listeners = []\<rparr>"

text \<open>\<^verbatim>\<open>afterInit\<close> hands two duplicates of the injected client to the adapter.\<close>

definition afterInit :: "service \<Rightarrow> Redis \<Rightarrow> service" where
  "afterInit st redisClient =
     (let pubClient = duplicate redisClient;
          subClient = duplicate redisClient
      in logger LOG ''WebSocket Gateway initialized with Redis adapter''
           (st\<lparr>adapter := Some (pubClient, subClient)\<rparr>))"

subsection \<open>Example data\<close>

definition anon :: socket where
  "anon = \<lparr>auth_token = Undefined, authorization = Undefined, user = None, rooms = []\<rparr>"

definition with_token :: "string \<Rightarrow> socket" where
  "with_token t = \<lparr>auth_token = Str t, authorization = Undefined, user = None, rooms = []\<rparr>"

definition alice :: UserDocument where
  "alice = \<lparr>u_id = ''u1'', email = ''a@x.io'', isActive = True, isConfirmed = True, isAdmin = False\<rparr>"

text \<open>A directory that knows \<open>alice\<close> under the token \<open>''tok''\<close>; the last-seen write
  answers as given.\<close>

definition directory :: "(exn + unit) \<Rightarrow> env" where
  "directory w =
     \<lparr>verify = (\<lambda>t. if t = ''tok'' then Inr \<lparr>jwt_email = ''a@x.io'', sub = ''u1''\<rparr>
                     else Inl (JsonWebTokenError ''invalid token'')),
      findById = (\<lambda>i. if i = ''u1'' then Inr (Some alice) else Inr None),
      updateLastSeen = (\<lambda>_ _. w),
      now = (\<lambda>k. 100 + k)\<rparr>"

text \<open>Three connected sockets, each presenting \<open>''tok''\<close>, nobody registered yet.\<close>

definition three_sockets :: service where
  "three_sockets =
     \<lparr>heap = (\<lambda>_. with_token ''tok''), nsp_sockets = [0, 1, 2], connectedUsers = [],
      frames = [], logs = [], adapter = None\<rparr>"

definition alice_principal :: principal where
  "alice_principal = \<lparr>p_id = ''u1'', p_email = ''a@x.io'', p_isAdmin = False\<rparr>"

text \<open>The same sockets with \<open>alice\<close> registered on connection 1.\<close>

definition alice_online :: service where
  "alice_online =
     \<lparr>heap = (\<lambda>_. with_token ''tok'')(1 := (with_token ''tok'')\<lparr>user := Some alice_principal\<rparr>),
      nsp_sockets = [0, 1, 2], connectedUsers = [(''u1'', 1)],
      frames = [], logs = [], adapter = None\<rparr>"

text \<open>\<open>alice\<close> connects on 0, then again on 1, then connection 0 closes.\<close>

definition after_A :: service where
  "after_A = snd (handleConnection (directory (Inr ())) three_sockets 0)"

definition after_B :: service where
  "after_B = snd (handleConnection (directory (Inr ())) after_A 1)"

definition after_A_closed :: service where
  "after_A_closed = snd (handleDisconnect (directory (Inr ())) after_B 0)"

section \<open>Properties\<close>

subsection \<open>Auxiliary facts\<close>

lemmas eval_defs =
  handleConnection_def register_def unexpected_def set_user_def token_of_def js_or_def
  authToken_def headerToken_def three_sockets_def directory_def with_token_def alice_def
  disconnect_def logger_def broadcast_emit_def userPresence_def is_connected_def
  new_frames_def handleDisconnect_def Let_def anon_def alice_online_def alice_principal_def
  isUserOnline_def getConnectedUsers_def UsersService_findById_def receivers_def

lemma new_frames_append: "frames st' = frames st @ fs \<Longrightarrow> new_frames st st' = fs"
  by (simp add: new_frames_def)


text \<open>What a connection that came through has done.\<close>

lemma handleConnection_Connected:
  assumes "handleConnection e st client = (Connected, st')"
  obtains t pl u where
    "token_of (heap st client) = Some t" "t \<noteq> []" "verify e t = Inr pl"
    "findById e (sub pl) = Inr (Some u)" "isActive u" "isConfirmed u"
    "updateLastSeen e (u_id u) (now e 0) = Inr ()"
    "st' = logger LOG (''User '' @ email u @ '' connected'')
             (broadcast_emit
               ((set_user st client \<lparr>p_id = u_id u, p_email = email u, p_isAdmin = isAdmin u\<rparr>)
                  \<lparr>connectedUsers := AList.update (u_id u) client (connectedUsers st)\<rparr>)
               client ''user.online'' (userPresence u (now e 1)))"
  using assms
  by (auto simp: handleConnection_def register_def unexpected_def set_user_def Let_def
      split: option.splits if_splits sum.splits)

lemma handleDisconnect_user:
  assumes "user (heap st client) = Some p"
  shows "handleDisconnect e st client =
     (case updateLastSeen e (p_id p) (now e 0) of
        Inl error \<Rightarrow> (Inl error, st\<lparr>connectedUsers := AList.delete (p_id p) (connectedUsers st)\<rparr>)
      | Inr _ \<Rightarrow>
          (Inr (),
           logger LOG (''User '' @ p_email p @ '' disconnected'')
             (broadcast_emit (st\<lparr>connectedUsers := AList.delete (p_id p) (connectedUsers st)\<rparr>)
                client ''user.offline'' (JStr (p_id p)))))"
  using assms by (simp add: handleDisconnect_def Let_def)





text \<open>The registry stays a map: its keys stay distinct through every handler.\<close>

lemma handleConnection_distinct:
  "distinct (map fst (connectedUsers st)) \<Longrightarrow>
     distinct (map fst (connectedUsers (snd (handleConnection e st client))))"
  by (auto simp: handleConnection_def register_def unexpected_def set_user_def Let_def
      disconnect_def logger_def broadcast_emit_def distinct_update
      split: option.splits sum.splits)

lemma handleDisconnect_distinct:
  "distinct (map fst (connectedUsers st)) \<Longrightarrow>
     distinct (map fst (connectedUsers (snd (handleDisconnect e st client))))"
  by (auto simp: handleDisconnect_def Let_def logger_def broadcast_emit_def distinct_delete
      split: option.splits sum.splits)

subsection \<open>Presence reads\<close>

text \<open>
  C10. The presence reads agree on every registry: a user is online exactly when the user
  id is in the list of connected users, the count is the length of that list, and none of
  the three calls changes the service.
\<close>

theorem presence_reads_consistent:
  "fst (isUserOnline st u) = (u \<in> set (fst (getConnectedUsers st)))
   \<and> fst (getConnectedUserCount st) = length (fst (getConnectedUsers st))
   \<and> snd (isUserOnline st u) = st
   \<and> snd (getConnectedUsers st) = st
   \<and> snd (getConnectedUserCount st) = st"
  by (simp add: isUserOnline_def getConnectedUsers_def getConnectedUserCount_def
      map_of_eq_None_iff)

subsection \<open>Token extraction\<close>

text \<open>
  C6, as the code has it. The token is \<^verbatim>\<open>auth.token\<close> when that field is a non-empty
  string, whatever the header holds. Otherwise (field missing, not a string, or the empty
  string) it is the \<^verbatim>\<open>Authorization\<close> header with the first \<^verbatim>\<open>Bearer \<close> removed,
  so a header \<^verbatim>\<open>Bearer r\<close> gives \<open>r\<close>; with no string header there is no token.
\<close>

theorem token_extraction_priority:
  "(auth_token s = Str t \<and> t \<noteq> [] \<longrightarrow> token_of s = Some t)
   \<and> ((\<forall>t. auth_token s = Str t \<longrightarrow> t = []) \<and> authorization s = Str a \<longrightarrow>
         token_of s = Some (replace_first ''Bearer '' [] a))
   \<and> ((\<forall>t. auth_token s = Str t \<longrightarrow> t = []) \<and> authorization s = Str (''Bearer '' @ r) \<longrightarrow>
         token_of s = Some r)
   \<and> ((\<forall>t. auth_token s = Str t \<longrightarrow> t = []) \<and> (\<forall>a. authorization s \<noteq> Str a) \<longrightarrow>
         token_of s = None)"
  by (cases "auth_token s"; cases "authorization s")
     (simp_all add: token_of_def js_or_def authToken_def headerToken_def)

theorem token_extraction_priority_witness:
  "token_of \<lparr>auth_token = Str ''abc'', authorization = Str ''Bearer xyz'', user = None, rooms = []\<rparr>
      = Some ''abc''
   \<and> token_of \<lparr>auth_token = Undefined, authorization = Str ''Bearer xyz'', user = None, rooms = []\<rparr>
      = Some ''xyz''
   \<and> token_of \<lparr>auth_token = NotAString, authorization = Str ''Basic Bearer xyz'', user = None, rooms = []\<rparr>
      = Some ''Basic xyz''
   \<and> token_of \<lparr>auth_token = Str [], authorization = Undefined, user = None, rooms = []\<rparr> = None"
  using token_extraction_priority
          [of "\<lparr>auth_token = Str ''abc'', authorization = Str ''Bearer xyz'', user = None, rooms = []\<rparr>"
              "''abc''" "''Bearer xyz''" "''xyz''"]
        token_extraction_priority
          [of "\<lparr>auth_token = Undefined, authorization = Str ''Bearer xyz'', user = None, rooms = []\<rparr>"
              "''abc''" "''Bearer xyz''" "''xyz''"]
        token_extraction_priority
          [of "\<lparr>auth_token = NotAString, authorization = Str ''Basic Bearer xyz'', user = None, rooms = []\<rparr>"
              "''abc''" "''Basic Bearer xyz''" "''xyz''"]
        token_extraction_priority
          [of "\<lparr>auth_token = Str [], authorization = Undefined, user = None, rooms = []\<rparr>"
              "''abc''" "''Bearer xyz''" "''xyz''"]
  by simp

text \<open>
  As the specification states it, the property fails on a handshake whose
  \<^verbatim>\<open>auth.token\<close> is present but empty: the header's token is used although the
  dedicated field is there.
\<close>

theorem empty_auth_token_counterexample:
  "auth_token \<lparr>auth_token = Str [], authorization = Str ''Bearer abc'', user = None, rooms = []\<rparr>
      \<noteq> Undefined
   \<and> token_of \<lparr>auth_token = Str [], authorization = Str ''Bearer abc'', user = None, rooms = []\<rparr>
      = Some ''abc''"
  by (simp add: token_of_def js_or_def authToken_def headerToken_def)

subsection \<open>Authentication fails closed\<close>

text \<open>
  C5. In each of the five failure modes (no token; the token fails verification; the user
  does not exist, whether the lookup answers \<^verbatim>\<open>null\<close> or raises; the user is
  inactive; the user is unconfirmed) the connection is disconnected, no frame is handed to
  any connection, the socket gets no principal, and the registry, hence the list of
  connected users, is what it was. Apart from the log the resulting service is the same in
  every mode: the one \<^verbatim>\<open>client.disconnect()\<close> produces.
\<close>

theorem authentication_fails_closed:
  "token_of (heap st client) = None \<or> token_of (heap st client) = Some []
     \<or> (\<exists>t. token_of (heap st client) = Some t \<and> t \<noteq> []
           \<and> ((\<exists>x. verify e t = Inl x)
              \<or> (\<exists>pl. verify e t = Inr pl
                    \<and> (findById e (sub pl) = Inr None
                       \<or> (\<exists>x. findById e (sub pl) = Inl x)
                       \<or> (\<exists>u. findById e (sub pl) = Inr (Some u) \<and> \<not> isActive u)
                       \<or> (\<exists>u. findById e (sub pl) = Inr (Some u) \<and> \<not> isConfirmed u)))))
   \<longrightarrow>
     fst (handleConnection e st client) \<noteq> Connected
     \<and> (snd (handleConnection e st client))\<lparr>logs := logs st\<rparr> = disconnect st client
     \<and> \<not> is_connected (snd (handleConnection e st client)) client
     \<and> frames (snd (handleConnection e st client)) = frames st
     \<and> user (heap (snd (handleConnection e st client)) client) = user (heap st client)
     \<and> connectedUsers (snd (handleConnection e st client)) = connectedUsers st
     \<and> fst (getConnectedUsers (snd (handleConnection e st client))) = fst (getConnectedUsers st)"
proof (intro impI)
  assume fails: "token_of (heap st client) = None \<or> token_of (heap st client) = Some []
     \<or> (\<exists>t. token_of (heap st client) = Some t \<and> t \<noteq> []
           \<and> ((\<exists>x. verify e t = Inl x)
              \<or> (\<exists>pl. verify e t = Inr pl
                    \<and> (findById e (sub pl) = Inr None
                       \<or> (\<exists>x. findById e (sub pl) = Inl x)
                       \<or> (\<exists>u. findById e (sub pl) = Inr (Some u) \<and> \<not> isActive u)
                       \<or> (\<exists>u. findById e (sub pl) = Inr (Some u) \<and> \<not> isConfirmed u)))))"
  let ?st' = "snd (handleConnection e st client)"
  have res: "fst (handleConnection e st client) \<noteq> Connected"
    and same: "?st'\<lparr>logs := logs st\<rparr> = disconnect st client"
    using fails
    by (auto simp: handleConnection_def unexpected_def disconnect_def logger_def
        split: option.splits sum.splits)
  have "nsp_sockets ?st' = nsp_sockets (?st'\<lparr>logs := logs st\<rparr>)"
    "frames ?st' = frames (?st'\<lparr>logs := logs st\<rparr>)"
    "heap ?st' = heap (?st'\<lparr>logs := logs st\<rparr>)"
    "connectedUsers ?st' = connectedUsers (?st'\<lparr>logs := logs st\<rparr>)"
    by simp_all
  then have "nsp_sockets ?st' = nsp_sockets (disconnect st client)"
    "frames ?st' = frames (disconnect st client)"
    "heap ?st' = heap (disconnect st client)"
    "connectedUsers ?st' = connectedUsers (disconnect st client)"
    by (simp_all only: same)
  then show "fst (handleConnection e st client) \<noteq> Connected
     \<and> ?st'\<lparr>logs := logs st\<rparr> = disconnect st client
     \<and> \<not> is_connected ?st' client
     \<and> frames ?st' = frames st
     \<and> user (heap ?st' client) = user (heap st client)
     \<and> connectedUsers ?st' = connectedUsers st
     \<and> fst (getConnectedUsers ?st') = fst (getConnectedUsers st)"
    using res same by (simp add: getConnectedUsers_def is_connected_def disconnect_def)
qed

theorem authentication_fails_closed_witness:
  "token_of (heap (three_sockets\<lparr>heap := \<lambda>_. anon\<rparr>) 0) = None
   \<and> \<not> is_connected (snd (handleConnection (directory (Inr ())) (three_sockets\<lparr>heap := \<lambda>_. anon\<rparr>) 0)) 0
   \<and> verify (directory (Inr ())) ''bad'' = Inl (JsonWebTokenError ''invalid token'')
   \<and> frames (snd (handleConnection (directory (Inr ()))
                (three_sockets\<lparr>heap := \<lambda>_. with_token ''bad''\<rparr>) 0)) = []
   \<and> UsersService_findById (\<lambda>_. Inr None) ''u1'' = Inl (NotFoundException ''User not found'')
   \<and> fst (getConnectedUsers (snd (handleConnection
        ((directory (Inr ()))\<lparr>findById := UsersService_findById (\<lambda>_. Inr None)\<rparr>)
        three_sockets 0))) = []
   \<and> fst (handleConnection
        ((directory (Inr ()))\<lparr>findById := \<lambda>_. Inr (Some (alice\<lparr>isActive := False\<rparr>))\<rparr>)
        three_sockets 0) \<noteq> Connected
   \<and> user (heap (snd (handleConnection
        ((directory (Inr ()))\<lparr>findById := \<lambda>_. Inr (Some (alice\<lparr>isConfirmed := False\<rparr>))\<rparr>)
        three_sockets 0)) 0) = None"
  using authentication_fails_closed
          [of "three_sockets\<lparr>heap := \<lambda>_. anon\<rparr>" 0 "directory (Inr ())"]
        authentication_fails_closed
          [of "three_sockets\<lparr>heap := \<lambda>_. with_token ''bad''\<rparr>" 0 "directory (Inr ())"]
        authentication_fails_closed
          [of three_sockets 0
              "(directory (Inr ()))\<lparr>findById := UsersService_findById (\<lambda>_. Inr None)\<rparr>"]
        authentication_fails_closed
          [of three_sockets 0
              "(directory (Inr ()))\<lparr>findById := \<lambda>_. Inr (Some (alice\<lparr>isActive := False\<rparr>))\<rparr>"]
        authentication_fails_closed
          [of three_sockets 0
              "(directory (Inr ()))\<lparr>findById := \<lambda>_. Inr (Some (alice\<lparr>isConfirmed := False\<rparr>))\<rparr>"]
  by (simp add: token_of_def js_or_def authToken_def headerToken_def three_sockets_def
      directory_def with_token_def anon_def alice_def UsersService_findById_def
      getConnectedUsers_def)

subsection \<open>Presence broadcasts\<close>

text \<open>
  C8, as the code has it. When a user authenticates and the last-seen write that follows
  succeeds, \<^verbatim>\<open>handleConnection\<close> comes through and the frames it adds are exactly one
  \<^verbatim>\<open>user.online\<close> frame, with the payload
  \<^verbatim>\<open>{userId, email, isOnline: true, lastSeen: now}\<close>, for every connected socket other
  than the client's own. When an authenticated socket is deregistered and the last-seen
  write succeeds, the frames \<^verbatim>\<open>handleDisconnect\<close> adds are exactly
  \<^verbatim>\<open>user.offline\<close> with the bare user id, again for every connected socket other than
  the client's own. Whatever happens, neither handler hands a frame to the client's own
  connection.
\<close>

theorem presence_broadcast_excludes_self:
  "(token_of (heap st client) = Some t \<and> t \<noteq> [] \<and> verify e t = Inr pl
      \<and> findById e (sub pl) = Inr (Some u) \<and> isActive u \<and> isConfirmed u
      \<and> updateLastSeen e (u_id u) (now e 0) = Inr () \<longrightarrow>
        fst (handleConnection e st client) = Connected
        \<and> user (heap (snd (handleConnection e st client)) client)
             = Some \<lparr>p_id = u_id u, p_email = email u, p_isAdmin = isAdmin u\<rparr>
        \<and> (\<forall>c ev d. (c, ev, d) \<in> set (new_frames st (snd (handleConnection e st client))) \<longleftrightarrow>
               is_connected st c \<and> c \<noteq> client \<and> ev = ''user.online''
               \<and> d = JObj [(''userId'', JStr (u_id u)), (''email'', JStr (email u)),
                           (''isOnline'', JBool True), (''lastSeen'', JDate (now e 1))]))
   \<and> (user (heap st client) = Some q \<and> updateLastSeen e (p_id q) (now e 0) = Inr () \<longrightarrow>
        fst (handleDisconnect e st client) = Inr ()
        \<and> (\<forall>c ev d. (c, ev, d) \<in> set (new_frames st (snd (handleDisconnect e st client))) \<longleftrightarrow>
               is_connected st c \<and> c \<noteq> client \<and> ev = ''user.offline'' \<and> d = JStr (p_id q)))
   \<and> client \<notin> receivers st (snd (handleConnection e st client))
   \<and> client \<notin> receivers st (snd (handleDisconnect e st client))"
proof (intro conjI impI)
  assume ok: "token_of (heap st client) = Some t \<and> t \<noteq> [] \<and> verify e t = Inr pl
      \<and> findById e (sub pl) = Inr (Some u) \<and> isActive u \<and> isConfirmed u
      \<and> updateLastSeen e (u_id u) (now e 0) = Inr ()"
  then have hc: "handleConnection e st client =
      (Connected,
       logger LOG (''User '' @ email u @ '' connected'')
         (broadcast_emit
           ((set_user st client \<lparr>p_id = u_id u, p_email = email u, p_isAdmin = isAdmin u\<rparr>)
              \<lparr>connectedUsers := AList.update (u_id u) client (connectedUsers st)\<rparr>)
           client ''user.online'' (userPresence u (now e 1))))"
    by (simp add: handleConnection_def register_def Let_def set_user_def)
  show "fst (handleConnection e st client) = Connected"
    by (simp add: hc)
  show "user (heap (snd (handleConnection e st client)) client)
          = Some \<lparr>p_id = u_id u, p_email = email u, p_isAdmin = isAdmin u\<rparr>"
    by (simp add: hc logger_def broadcast_emit_def set_user_def)
  have "new_frames st (snd (handleConnection e st client)) =
      map (\<lambda>c. (c, ''user.online'', userPresence u (now e 1)))
        (filter (\<lambda>c. c \<noteq> client) (nsp_sockets st))"
    by (rule new_frames_append) (simp add: hc logger_def broadcast_emit_def set_user_def)
  then show "\<forall>c ev d. (c, ev, d) \<in> set (new_frames st (snd (handleConnection e st client))) \<longleftrightarrow>
               is_connected st c \<and> c \<noteq> client \<and> ev = ''user.online''
               \<and> d = JObj [(''userId'', JStr (u_id u)), (''email'', JStr (email u)),
                           (''isOnline'', JBool True), (''lastSeen'', JDate (now e 1))]"
    by (auto simp: is_connected_def userPresence_def)
next
  assume a: "user (heap st client) = Some q \<and> updateLastSeen e (p_id q) (now e 0) = Inr ()"
  then show "fst (handleDisconnect e st client) = Inr ()"
    by (simp add: handleDisconnect_user)
  from a have "new_frames st (snd (handleDisconnect e st client)) =
      map (\<lambda>c. (c, ''user.offline'', JStr (p_id q))) (filter (\<lambda>c. c \<noteq> client) (nsp_sockets st))"
    by (intro new_frames_append)
       (simp add: handleDisconnect_user logger_def broadcast_emit_def)
  then show "\<forall>c ev d. (c, ev, d) \<in> set (new_frames st (snd (handleDisconnect e st client))) \<longleftrightarrow>
               is_connected st c \<and> c \<noteq> client \<and> ev = ''user.offline'' \<and> d = JStr (p_id q)"
    by (auto simp: is_connected_def)
next
  show "client \<notin> receivers st (snd (handleConnection e st client))"
    by (auto simp: receivers_def new_frames_def handleConnection_def register_def
        unexpected_def set_user_def disconnect_def logger_def broadcast_emit_def Let_def
        split: option.splits sum.splits)
  show "client \<notin> receivers st (snd (handleDisconnect e st client))"
    by (auto simp: receivers_def new_frames_def handleDisconnect_def logger_def
        broadcast_emit_def Let_def split: option.splits sum.splits)
qed

theorem presence_broadcast_excludes_self_witness:
  "token_of (heap three_sockets 0) = Some ''tok''
   \<and> verify (directory (Inr ())) ''tok'' = Inr \<lparr>jwt_email = ''a@x.io'', sub = ''u1''\<rparr>
   \<and> findById (directory (Inr ())) ''u1'' = Inr (Some alice)
   \<and> isActive alice \<and> isConfirmed alice
   \<and> updateLastSeen (directory (Inr ())) ''u1'' 100 = Inr ()
   \<and> fst (handleConnection (directory (Inr ())) three_sockets 0) = Connected
   \<and> (1, ''user.online'',
        JObj [(''userId'', JStr ''u1''), (''email'', JStr ''a@x.io''),
              (''isOnline'', JBool True), (''lastSeen'', JDate 101)])
        \<in> set (new_frames three_sockets (snd (handleConnection (directory (Inr ())) three_sockets 0)))
   \<and> 0 \<notin> receivers three_sockets (snd (handleConnection (directory (Inr ())) three_sockets 0))
   \<and> user (heap alice_online 1) = Some alice_principal
   \<and> fst (handleDisconnect (directory (Inr ())) alice_online 1) = Inr ()
   \<and> (2, ''user.offline'', JStr ''u1'')
        \<in> set (new_frames alice_online (snd (handleDisconnect (directory (Inr ())) alice_online 1)))
   \<and> 1 \<notin> receivers alice_online (snd (handleDisconnect (directory (Inr ())) alice_online 1))"
proof -
  let ?D = "directory (Inr ())"
  have h: "token_of (heap three_sockets 0) = Some ''tok''"
    "verify ?D ''tok'' = Inr \<lparr>jwt_email = ''a@x.io'', sub = ''u1''\<rparr>"
    "findById ?D ''u1'' = Inr (Some alice)" "isActive alice" "isConfirmed alice"
    "updateLastSeen ?D ''u1'' 100 = Inr ()"
    "user (heap alice_online 1) = Some alice_principal"
    by (simp_all add: three_sockets_def with_token_def token_of_def js_or_def authToken_def
        directory_def alice_def alice_online_def)
  have v: "u_id alice = ''u1''" "email alice = ''a@x.io''" "now ?D 0 = 100" "now ?D 1 = 101"
    "p_id alice_principal = ''u1''"
    "is_connected three_sockets 1" "is_connected alice_online 2"
    by (simp_all add: alice_def directory_def alice_principal_def is_connected_def
        three_sockets_def alice_online_def)
  note on = presence_broadcast_excludes_self
      [of three_sockets 0 "''tok''" ?D "\<lparr>jwt_email = ''a@x.io'', sub = ''u1''\<rparr>" alice
          alice_principal]
  note off = presence_broadcast_excludes_self
      [of alice_online 1 "''tok''" ?D "\<lparr>jwt_email = ''a@x.io'', sub = ''u1''\<rparr>" alice
          alice_principal]
  have "fst (handleConnection ?D three_sockets 0) = Connected"
    using on h v by simp
  moreover have "(1, ''user.online'',
        JObj [(''userId'', JStr ''u1''), (''email'', JStr ''a@x.io''),
              (''isOnline'', JBool True), (''lastSeen'', JDate 101)])
        \<in> set (new_frames three_sockets (snd (handleConnection ?D three_sockets 0)))"
    using on h v by simp
  moreover have "0 \<notin> receivers three_sockets (snd (handleConnection ?D three_sockets 0))"
    using on by blast
  moreover have "fst (handleDisconnect ?D alice_online 1) = Inr ()"
    using off h v by simp
  moreover have "(2, ''user.offline'', JStr ''u1'')
        \<in> set (new_frames alice_online (snd (handleDisconnect ?D alice_online 1)))"
    using off h v by simp
  moreover have "1 \<notin> receivers alice_online (snd (handleDisconnect ?D alice_online 1))"
    using off by blast
  ultimately show ?thesis using h by blast
qed

text \<open>
  As the specification states it, the property fails when the last-seen write is rejected:
  the user has authenticated (the principal is attached and the registry holds the entry)
  and another socket is connected, yet no \<^verbatim>\<open>user.online\<close> frame is sent; and an
  authenticated socket is deregistered (its entry is gone) without any
  \<^verbatim>\<open>user.offline\<close> frame.
\<close>

theorem presence_broadcast_counterexample:
  "token_of (heap three_sockets 0) = Some ''tok''
   \<and> verify (directory (Inl (Error ''timeout''))) ''tok''
        = Inr \<lparr>jwt_email = ''a@x.io'', sub = ''u1''\<rparr>
   \<and> findById (directory (Inl (Error ''timeout''))) ''u1'' = Inr (Some alice)
   \<and> isActive alice \<and> isConfirmed alice
   \<and> is_connected three_sockets 1
   \<and> user (heap (snd (handleConnection (directory (Inl (Error ''timeout''))) three_sockets 0)) 0)
        = Some alice_principal
   \<and> map_of (connectedUsers
        (snd (handleConnection (directory (Inl (Error ''timeout''))) three_sockets 0))) ''u1''
        = Some 0
   \<and> new_frames three_sockets
        (snd (handleConnection (directory (Inl (Error ''timeout''))) three_sockets 0)) = []
   \<and> user (heap alice_online 1) = Some alice_principal
   \<and> is_connected alice_online 0
   \<and> map_of (connectedUsers
        (snd (handleDisconnect (directory (Inl (Error ''timeout''))) alice_online 1))) ''u1''
        = None
   \<and> new_frames alice_online
        (snd (handleDisconnect (directory (Inl (Error ''timeout''))) alice_online 1)) = []"
  by (simp add: eval_defs)

subsection \<open>A failing last-seen write\<close>

text \<open>
  C2, as the code has it. When everything else succeeds and the last-seen write is
  rejected, \<^verbatim>\<open>handleConnection\<close> ends in its catch-all: the error is logged, the
  client is disconnected and no \<^verbatim>\<open>user.online\<close> frame (no frame at all) is sent.
  In \<^verbatim>\<open>handleDisconnect\<close> the rejection leaves the handler after the registry entry
  was deleted: the handler rejects with the same error, nothing is logged and no
  \<^verbatim>\<open>user.offline\<close> frame is sent.
\<close>

theorem last_seen_failure_aborts_flow:
  "(token_of (heap st client) = Some t \<and> t \<noteq> [] \<and> verify e t = Inr pl
      \<and> findById e (sub pl) = Inr (Some u) \<and> isActive u \<and> isConfirmed u
      \<and> updateLastSeen e (u_id u) (now e 0) = Inl x \<longrightarrow>
        fst (handleConnection e st client) = UnexpectedError x
        \<and> \<not> is_connected (snd (handleConnection e st client)) client
        \<and> frames (snd (handleConnection e st client)) = frames st
        \<and> logs (snd (handleConnection e st client)) =
            logs st @ [(ERROR, ''[SocketService] Unexpected connection error: '' @ message x)])
   \<and> (user (heap st client) = Some p \<and> updateLastSeen e (p_id p) (now e 0) = Inl x \<longrightarrow>
        fst (handleDisconnect e st client) = Inl x
        \<and> frames (snd (handleDisconnect e st client)) = frames st
        \<and> logs (snd (handleDisconnect e st client)) = logs st
        \<and> connectedUsers (snd (handleDisconnect e st client))
            = AList.delete (p_id p) (connectedUsers st))"
  by (auto simp: handleConnection_def register_def unexpected_def Let_def set_user_def
      disconnect_def logger_def is_connected_def handleDisconnect_user)

theorem last_seen_failure_aborts_flow_witness:
  "token_of (heap three_sockets 0) = Some ''tok''
   \<and> verify (directory (Inl (Error ''db down''))) ''tok'' = Inr \<lparr>jwt_email = ''a@x.io'', sub = ''u1''\<rparr>
   \<and> findById (directory (Inl (Error ''db down''))) ''u1'' = Inr (Some alice)
   \<and> isActive alice \<and> isConfirmed alice
   \<and> updateLastSeen (directory (Inl (Error ''db down''))) ''u1'' 100 = Inl (Error ''db down'')
   \<and> logs (snd (handleConnection (directory (Inl (Error ''db down''))) three_sockets 0))
        = [(ERROR, ''[SocketService] Unexpected connection error: db down'')]
   \<and> user (heap alice_online 1) = Some alice_principal
   \<and> fst (handleDisconnect (directory (Inl (Error ''db down''))) alice_online 1)
        = Inl (Error ''db down'')
   \<and> connectedUsers (snd (handleDisconnect (directory (Inl (Error ''db down''))) alice_online 1)) = []"
proof -
  let ?e = "directory (Inl (Error ''db down''))"
  have h: "token_of (heap three_sockets 0) = Some ''tok''"
    "verify ?e ''tok'' = Inr \<lparr>jwt_email = ''a@x.io'', sub = ''u1''\<rparr>"
    "findById ?e ''u1'' = Inr (Some alice)" "isActive alice" "isConfirmed alice"
    "updateLastSeen ?e ''u1'' 100 = Inl (Error ''db down'')"
    "u_id alice = ''u1''" "now ?e 0 = 100" "logs three_sockets = []"
    "user (heap alice_online 1) = Some alice_principal" "p_id alice_principal = ''u1''"
    "connectedUsers alice_online = [(''u1'', 1)]"
    by (simp_all add: three_sockets_def with_token_def token_of_def js_or_def authToken_def
        directory_def alice_def alice_online_def alice_principal_def)
  from last_seen_failure_aborts_flow
         [of three_sockets 0 "''tok''" ?e "\<lparr>jwt_email = ''a@x.io'', sub = ''u1''\<rparr>" alice
             "Error ''db down''" alice_principal]
       last_seen_failure_aborts_flow
         [of alice_online 1 "''tok''" ?e "\<lparr>jwt_email = ''a@x.io'', sub = ''u1''\<rparr>" alice
             "Error ''db down''" alice_principal]
  show ?thesis using h by simp
qed

text \<open>
  As the specification states it, the property fails when the directory rejects the
  write: the connection is disconnected without any broadcast, and a disconnect rejects
  without any broadcast.
\<close>

theorem last_seen_failure_counterexample:
  "fst (handleConnection (directory (Inl (Error ''db down''))) three_sockets 0)
      = UnexpectedError (Error ''db down'')
   \<and> \<not> is_connected (snd (handleConnection (directory (Inl (Error ''db down''))) three_sockets 0)) 0
   \<and> frames (snd (handleConnection (directory (Inl (Error ''db down''))) three_sockets 0)) = []
   \<and> fst (handleDisconnect (directory (Inl (Error ''db down''))) alice_online 1)
      = Inl (Error ''db down'')
   \<and> frames (snd (handleDisconnect (directory (Inl (Error ''db down''))) alice_online 1)) = []"
  by (simp add: eval_defs)

subsection \<open>A stale connection closes\<close>

text \<open>
  C1, as the code has it. \<^verbatim>\<open>handleDisconnect\<close> deletes the registry entry of the
  closing connection's user whichever connection the entry points at. If user \<open>u\<close> came
  through on connection \<open>a\<close> and then on connection \<open>b\<close>, the entry of \<open>u\<close> points at
  \<open>b\<close> and \<open>u\<close> is online; when \<open>a\<close> then closes, the entry of \<open>u\<close> is removed and
  \<open>u\<close> is no longer online, while the entries of all other users stay as they were.
\<close>

theorem stale_close_evicts_successor:
  assumes A: "handleConnection eA s0 a = (Connected, s1)"
    and ua: "user (heap s1 a) = Some pa" "p_id pa = u"
    and B: "handleConnection eB s1 b = (Connected, s2)"
    and ub: "user (heap s2 b) = Some pb" "p_id pb = u"
    and ab: "a \<noteq> b"
  shows "map_of (connectedUsers s2) u = Some b
     \<and> fst (isUserOnline s2 u)
     \<and> connectedUsers (snd (handleDisconnect eC s2 a)) = AList.delete u (connectedUsers s2)
     \<and> map_of (connectedUsers (snd (handleDisconnect eC s2 a))) u = None
     \<and> \<not> fst (isUserOnline (snd (handleDisconnect eC s2 a)) u)
     \<and> (\<forall>v. v \<noteq> u \<longrightarrow>
           map_of (connectedUsers (snd (handleDisconnect eC s2 a))) v = map_of (connectedUsers s2) v)"
proof -
  from B obtain w where
    s2: "s2 = logger LOG (''User '' @ email w @ '' connected'')
             (broadcast_emit
               ((set_user s1 b \<lparr>p_id = u_id w, p_email = email w, p_isAdmin = isAdmin w\<rparr>)
                  \<lparr>connectedUsers := AList.update (u_id w) b (connectedUsers s1)\<rparr>)
               b ''user.online'' (userPresence w (now eB 1)))"
    by (rule handleConnection_Connected)
  have heap2: "heap s2 =
      (heap s1)(b := (heap s1 b)\<lparr>user := Some \<lparr>p_id = u_id w, p_email = email w, p_isAdmin = isAdmin w\<rparr>\<rparr>)"
    by (simp add: s2 logger_def broadcast_emit_def set_user_def)
  have cu2: "connectedUsers s2 = AList.update (u_id w) b (connectedUsers s1)"
    by (simp add: s2 logger_def broadcast_emit_def set_user_def)
  from ub heap2 have w: "u_id w = u" by auto
  have idx: "map_of (connectedUsers s2) u = Some b"
    by (simp add: cu2 w update_conv')
  from ua ab heap2 have "user (heap s2 a) = Some pa" by simp
  then have del: "connectedUsers (snd (handleDisconnect eC s2 a)) = AList.delete u (connectedUsers s2)"
    using ua(2)
    by (simp add: handleDisconnect_user logger_def broadcast_emit_def split: sum.splits)
  show ?thesis
    by (simp add: idx del isUserOnline_def delete_conv')
qed

theorem stale_close_evicts_successor_witness:
  "handleConnection (directory (Inr ())) three_sockets 0 = (Connected, after_A)
   \<and> user (heap after_A 0) = Some alice_principal
   \<and> handleConnection (directory (Inr ())) after_A 1 = (Connected, after_B)
   \<and> user (heap after_B 1) = Some alice_principal
   \<and> map_of (connectedUsers after_B) ''u1'' = Some 1
   \<and> connectedUsers (snd (handleDisconnect (directory (Inr ())) after_B 0)) = []"
proof -
  have A: "handleConnection (directory (Inr ())) three_sockets 0 = (Connected, after_A)"
    by (simp add: after_A_def prod_eq_iff eval_defs)
  have ua: "user (heap after_A 0) = Some alice_principal"
    by (simp add: after_A_def eval_defs)
  have B: "handleConnection (directory (Inr ())) after_A 1 = (Connected, after_B)"
    by (simp add: after_B_def after_A_def prod_eq_iff eval_defs)
  have ub: "user (heap after_B 1) = Some alice_principal"
    by (simp add: after_B_def after_A_def eval_defs)
  have u: "p_id alice_principal = ''u1''"
    by (simp add: alice_principal_def)
  have cu: "connectedUsers after_B = [(''u1'', 1)]"
    by (simp add: after_B_def after_A_def eval_defs)
  from stale_close_evicts_successor [OF A ua u B ub u, of "directory (Inr ())"]
  show ?thesis using A ua B ub by (simp add: cu)
qed

text \<open>
  As the specification states it, the property fails on that very scenario: after
  connection 0 closed, connection 1 is still connected and still carries the principal,
  yet the user is reported offline and the registry has changed.
\<close>

theorem stale_close_counterexample:
  "fst (handleConnection (directory (Inr ())) three_sockets 0) = Connected
   \<and> fst (handleConnection (directory (Inr ())) after_A 1) = Connected
   \<and> map_of (connectedUsers after_B) ''u1'' = Some 1
   \<and> is_connected after_A_closed 1
   \<and> user (heap after_A_closed 1) = Some alice_principal
   \<and> fst (isUserOnline after_A_closed ''u1'') = False
   \<and> connectedUsers after_A_closed \<noteq> connectedUsers after_B"
  by (simp add: after_A_def after_B_def after_A_closed_def eval_defs)

subsection \<open>Rooms\<close>

text \<open>
  C3, as the code has it. On a connection that carries no principal,
  \<^verbatim>\<open>join.project\<close> and \<^verbatim>\<open>join.task\<close> first add the connection to the room and
  then raise a \<^verbatim>\<open>TypeError\<close> when the log line reads the user's email. The handler
  does not disconnect the connection.
\<close>

theorem unauthenticated_join_joins_then_raises:
  assumes "user (heap st client) = None"
  shows "handleJoinProject st client projectId
           = (Inl no_user, socket_join st client (''project:'' @ projectId))
     \<and> handleJoinTask st client taskId
           = (Inl no_user, socket_join st client (''task:'' @ taskId))
     \<and> ''project:'' @ projectId
           \<in> set (rooms (heap (snd (handleJoinProject st client projectId)) client))
     \<and> ''task:'' @ taskId \<in> set (rooms (heap (snd (handleJoinTask st client taskId)) client))
     \<and> nsp_sockets (snd (handleJoinProject st client projectId)) = nsp_sockets st
     \<and> nsp_sockets (snd (handleJoinTask st client taskId)) = nsp_sockets st"
  using assms by (simp add: handleJoinProject_def handleJoinTask_def socket_join_def Let_def)

theorem unauthenticated_join_witness:
  "user (heap three_sockets 2) = None
   \<and> fst (handleJoinTask three_sockets 2 ''T9'') = Inl no_user
   \<and> rooms (heap (snd (handleJoinTask three_sockets 2 ''T9'')) 2) = [''task:T9'']
   \<and> is_connected (snd (handleJoinProject three_sockets 2 ''P9'')) 2"
proof -
  have h: "user (heap three_sockets 2) = None"
    by (simp add: three_sockets_def with_token_def)
  have r: "rooms (heap three_sockets 2) = []" "nsp_sockets three_sockets = [0, 1, 2]"
    by (simp_all add: three_sockets_def with_token_def)
  from unauthenticated_join_joins_then_raises [OF h, of "''P9''" "''T9''"]
  show ?thesis using h by (simp add: socket_join_def r is_connected_def)
qed

text \<open>
  As the specification states it, the property fails on any connected socket without a
  principal: it ends up in the room and receives what is emitted to it.
\<close>

theorem unauthenticated_join_counterexample:
  "user (heap three_sockets 0) = None
   \<and> fst (handleJoinProject three_sockets 0 ''P1'') = Inl no_user
   \<and> ''project:P1'' \<in> set (rooms (heap (snd (handleJoinProject three_sockets 0 ''P1'')) 0))
   \<and> fst (handleJoinTask three_sockets 0 ''T1'') = Inl no_user
   \<and> ''task:T1'' \<in> set (rooms (heap (snd (handleJoinTask three_sockets 0 ''T1'')) 0))
   \<and> 0 \<in> receivers (snd (handleJoinProject three_sockets 0 ''P1''))
            (emitTaskCreatedToProject (snd (handleJoinProject three_sockets 0 ''P1'')) ''P1''
               (JStr ''task''))"
  by (simp add: handleJoinProject_def handleJoinTask_def socket_join_def three_sockets_def
      with_token_def receivers_def new_frames_def emitTaskCreatedToProject_def
      server_to_emit_def Let_def)



subsection \<open>Emission to one user\<close>

text \<open>
  C7. For a user id that is not in the registry each of the seven emissions to a user
  returns the service unchanged: nothing is delivered, nothing is mutated, and there is no
  error to raise. For a user id that is in the registry each of them adds one frame, for
  the connection the registry holds for that user, and changes nothing else.
\<close>

theorem emit_to_user_single_or_silent:
  "(map_of (connectedUsers st) userId = None \<longrightarrow>
      emitTaskCreated st userId d = st \<and> emitTaskUpdated st userId d = st
      \<and> emitTaskDeleted st userId t = st \<and> emitProjectUpdated st userId d = st
      \<and> emitCommentCreated st userId d = st \<and> emitUserOnline st userId d = st
      \<and> emitNotification st userId d = st)
   \<and> (map_of (connectedUsers st) userId = Some c \<longrightarrow>
      emitTaskCreated st userId d = st\<lparr>frames := frames st @ [(c, ''task.created'', d)]\<rparr>
      \<and> emitTaskUpdated st userId d = st\<lparr>frames := frames st @ [(c, ''task.updated'', d)]\<rparr>
      \<and> emitTaskDeleted st userId t = st\<lparr>frames := frames st @ [(c, ''task.deleted'', JStr t)]\<rparr>
      \<and> emitProjectUpdated st userId d = st\<lparr>frames := frames st @ [(c, ''project.updated'', d)]\<rparr>
      \<and> emitCommentCreated st userId d = st\<lparr>frames := frames st @ [(c, ''comment.created'', d)]\<rparr>
      \<and> emitUserOnline st userId d = st\<lparr>frames := frames st @ [(c, ''user.online'', d)]\<rparr>
      \<and> emitNotification st userId d = st\<lparr>frames := frames st @ [(c, ''notification'', d)]\<rparr>)"
  by (simp add: emitTaskCreated_def emitTaskUpdated_def emitTaskDeleted_def
      emitProjectUpdated_def emitCommentCreated_def emitUserOnline_def emitNotification_def
      socket_emit_def)

theorem emit_to_user_single_or_silent_witness:
  "map_of (connectedUsers alice_online) ''nobody'' = None
   \<and> emitTaskCreated alice_online ''nobody'' (JStr ''task'') = alice_online
   \<and> map_of (connectedUsers alice_online) ''u1'' = Some 1
   \<and> new_frames alice_online (emitNotification alice_online ''u1'' (JStr ''hello''))
        = [(1, ''notification'', JStr ''hello'')]"
proof -
  have h: "map_of (connectedUsers alice_online) ''nobody'' = None"
    "map_of (connectedUsers alice_online) ''u1'' = Some 1"
    by (simp_all add: alice_online_def)
  from emit_to_user_single_or_silent [of alice_online "''nobody''" "JStr ''task''" "''t''" 1]
       emit_to_user_single_or_silent [of alice_online "''u1''" "JStr ''hello''" "''t''" 1]
  show ?thesis using h by (simp add: new_frames_def)
qed

end
